theory Spec2Isabelle
  imports Main "HOL-Library.Sublist"
begin

section \<open>Go library functions used by main.go\<close>

text \<open>
  Go strings are byte sequences; they are modelled as \<open>string\<close> (a \<open>char list\<close>).
  The path separator is the byte \<open>/\<close> (the program is modelled on a Unix host).
\<close>

subsection \<open>Package strings\<close>

definition HasSuffix :: "string \<Rightarrow> string \<Rightarrow> bool" where
  "HasSuffix s suf = suffix suf s"

definition TrimSuffix :: "string \<Rightarrow> string \<Rightarrow> string" where
  "TrimSuffix s suf = (if HasSuffix s suf then take (length s - length suf) s else s)"

text \<open>\<open>strings.Contains(s, sub)\<close>: \<open>sub\<close> occurs at some position of \<open>s\<close>.\<close>

fun Contains :: "string \<Rightarrow> string \<Rightarrow> bool" where
  "Contains [] sub = (sub = [])"
| "Contains (c # cs) sub = (prefix sub (c # cs) \<or> Contains cs sub)"

text \<open>
  \<open>strings.Replace(s, old, new, 1)\<close>: the first (leftmost) occurrence of \<open>old\<close> is replaced
  by \<open>new\<close>; without an occurrence \<open>s\<close> is returned as it is. An empty \<open>old\<close> matches at
  the start of the string. Every call of \<open>strings.Replace\<close> in main.go has the count 1.
\<close>

fun Replace1 :: "string \<Rightarrow> string \<Rightarrow> string \<Rightarrow> string" where
  "Replace1 [] old new = (if old = [] then new else [])"
| "Replace1 (c # cs) old new =
     (if prefix old (c # cs) then new @ drop (length old) (c # cs)
      else c # Replace1 cs old new)"

subsection \<open>Package path/filepath: Clean, Join, Split\<close>

text \<open>The path elements between separators; \<open>a//b\<close> has an empty element in the middle.\<close>

fun elements :: "string \<Rightarrow> string list" where
  "elements [] = [[]]"
| "elements (c # cs) =
     (if c = CHR ''/'' then [] # elements cs
      else (case elements cs of [] \<Rightarrow> [[c]] | e # es \<Rightarrow> (c # e) # es))"

text \<open>
  One step of \<open>filepath.Clean\<close> over the next path element; \<open>out\<close> holds the elements
  written so far, the last one first. Empty elements and \<open>.\<close> are dropped; \<open>..\<close> removes
  the element before it when there is one that is not itself \<open>..\<close>, is dropped at the
  root of a rooted path, and is kept otherwise.
\<close>

definition clean_step :: "bool \<Rightarrow> string list \<Rightarrow> string \<Rightarrow> string list" where
  "clean_step rooted out e =
     (if e = [] \<or> e = ''.'' then out
      else if e = ''..'' then
        (case out of
           [] \<Rightarrow> (if rooted then [] else [e])
         | t # ts \<Rightarrow> (if t = ''..'' then e # out else ts))
      else e # out)"

fun join_sep :: "string list \<Rightarrow> string" where
  "join_sep [] = []"
| "join_sep [e] = e"
| "join_sep (e # es) = e @ CHR ''/'' # join_sep es"

definition Clean :: "string \<Rightarrow> string" where
  "Clean path =
     (if path = [] then ''.''
      else
        let rooted = (hd path = CHR ''/'');
            body = join_sep (rev (foldl (clean_step rooted) [] (elements path)))
        in if rooted then CHR ''/'' # body
           else if body = [] then ''.'' else body)"

text \<open>
  \<open>filepath.Join(elem...)\<close>: the elements from the first non-empty one on, joined by the
  separator and cleaned; the empty string when every element is empty.
\<close>

definition Join :: "string list \<Rightarrow> string" where
  "Join elem =
     (case dropWhile (\<lambda>e. e = []) elem of
        [] \<Rightarrow> []
      | e # es \<Rightarrow> Clean (join_sep (e # es)))"

text \<open>\<open>filepath.Split\<close>: the directory part up to and with the last separator, and the file part.\<close>

definition Split :: "string \<Rightarrow> string \<times> string" where
  "Split path =
     (let file = rev (takeWhile (\<lambda>c. c \<noteq> CHR ''/'') (rev path))
      in (take (length path - length file) path, file))"

subsection \<open>The filesystem, os.Stat\<close>

text \<open>
  The filesystem the process sees is the finite table of the paths on which \<open>os.Stat\<close>
  succeeds, each with its kind. Paths are the strings the program passes to the operating
  system (it only passes results of \<open>filepath.Join\<close>, which are clean). \<open>os.Stat\<close> of the
  empty path fails on every host. Symbolic links are not modelled, so \<open>os.Lstat\<close> and
  \<open>os.Stat\<close> agree.
\<close>

datatype kind = File | Dir

type_synonym filesystem = "(string \<times> kind) list"

definition os_Stat :: "filesystem \<Rightarrow> string \<Rightarrow> kind option" where
  "os_Stat fs path = (if path = [] then None else map_of fs path)"

text \<open>\<open>fileExists\<close> of main.go: \<open>os.Stat\<close> returned no error.\<close>

definition fileExists :: "filesystem \<Rightarrow> string \<Rightarrow> bool" where
  "fileExists fs path = (os_Stat fs path \<noteq> None)"

subsection \<open>Package path/filepath: Match and Glob\<close>

text \<open>
  \<open>filepath.Match\<close> for the pattern language main.go uses: literal bytes and \<open>*\<close>, which
  matches any sequence of non-separator bytes. Two stars in a row match what one star
  matches: Go has no recursive \<open>**\<close>. The other metacharacters of Go's patterns (\<open>?\<close>,
  \<open>[\<close>, backslash) occur in no pattern of main.go; they could only come in through a project
  root that contains them, and such roots are outside this model of \<open>Match\<close>.
\<close>

fun Match :: "string \<Rightarrow> string \<Rightarrow> bool" where
  "Match [] name = (name = [])"
| "Match (p # ps) name =
     (if p = CHR ''*'' then
        (Match ps name \<or>
         (case name of [] \<Rightarrow> False | c # cs \<Rightarrow> c \<noteq> CHR ''/'' \<and> Match (p # ps) cs))
      else (case name of [] \<Rightarrow> False | c # cs \<Rightarrow> c = p \<and> Match ps cs))"

definition hasMeta :: "string \<Rightarrow> bool" where
  "hasMeta path =
     (\<exists>c \<in> set path. c = CHR ''*'' \<or> c = CHR ''?'' \<or> c = CHR ''['' \<or> c = CHR 0x5C)"

definition cleanGlobPath :: "string \<Rightarrow> string" where
  "cleanGlobPath path =
     (if path = [] then ''.'' else if path = ''/'' then path else butlast path)"

text \<open>
  The names in a directory: \<open>n\<close> is an entry of \<open>dir\<close> when \<open>filepath.Join(dir, n)\<close> is a
  path of the table. Go sorts the names; the program only asks whether there is a match,
  so the table's order is kept.
\<close>

definition is_entry :: "string \<Rightarrow> string \<Rightarrow> bool" where
  "is_entry dir p =
     (let n = snd (Split p)
      in n \<noteq> [] \<and> n \<noteq> ''.'' \<and> n \<noteq> ''..'' \<and> Join [dir, n] = p)"

definition Readdirnames :: "filesystem \<Rightarrow> string \<Rightarrow> string list" where
  "Readdirnames fs dir = map (\<lambda>p. snd (Split p)) (filter (is_entry dir) (map fst fs))"

text \<open>
  \<open>glob(dir, pattern)\<close> of Go's filepath package: the entries of \<open>dir\<close> whose names match;
  nothing when \<open>dir\<close> is missing or is not a directory.
\<close>

definition glob :: "filesystem \<Rightarrow> string \<Rightarrow> string \<Rightarrow> string list" where
  "glob fs dir pattern =
     (case os_Stat fs dir of
        Some Dir \<Rightarrow> map (\<lambda>n. Join [dir, n]) (filter (Match pattern) (Readdirnames fs dir))
      | _ \<Rightarrow> [])"

datatype error = ErrBadPattern

text \<open>
  \<open>filepath.Glob\<close>: a pattern without metacharacters is a plain existence test; otherwise
  the directory part is expanded first (recursively when it has metacharacters itself) and
  the file part is matched against the names in each directory found.
\<close>

function Glob :: "filesystem \<Rightarrow> string \<Rightarrow> error + string list" where
  "Glob fs pattern =
     (if \<not> hasMeta pattern then
        (if os_Stat fs pattern \<noteq> None then Inr [pattern] else Inr [])
      else
        let dir = cleanGlobPath (fst (Split pattern));
            file = snd (Split pattern)
        in if \<not> hasMeta dir then Inr (glob fs dir file)
           else if dir = pattern then Inl ErrBadPattern
           else (case Glob fs dir of
                   Inl e \<Rightarrow> Inl e
                 | Inr m \<Rightarrow> Inr (concat (map (\<lambda>d. glob fs d file) m))))"
  by pat_completeness auto

lemma hasMeta_not_dot_or_root: "hasMeta d \<Longrightarrow> d \<noteq> ''.'' \<and> d \<noteq> ''/''"
  by (auto simp: hasMeta_def)

lemma cleanGlobPath_shorter:
  assumes "hasMeta (cleanGlobPath (fst (Split pattern)))"
  shows "length (cleanGlobPath (fst (Split pattern))) < length pattern"
proof -
  let ?d = "fst (Split pattern)"
  from assms have ne: "?d \<noteq> []" "?d \<noteq> ''/''"
    using hasMeta_not_dot_or_root [of "cleanGlobPath ?d"]
    by (auto simp: cleanGlobPath_def split: if_splits)
  then have "cleanGlobPath ?d = butlast ?d"
    by (simp add: cleanGlobPath_def)
  moreover have "length ?d \<le> length pattern"
    by (simp add: Split_def Let_def)
  ultimately show ?thesis
    using ne(1) by (cases ?d rule: rev_cases) auto
qed

termination Glob
  by (relation "measure (\<lambda>(fs, pattern). length pattern)")
     (auto simp: cleanGlobPath_shorter)

declare Glob.simps [simp del]

subsection \<open>Package regexp\<close>

text \<open>
  The three patterns main.go compiles all have the form \<open>a\<^sub>1 \<dots> a\<^sub>n$\<close>, where an atom is a
  literal byte or a starred character class, and \<open>$\<close> is the end of the text (Go's \<open>$\<close>
  without the \<open>m\<close> flag). A compiled pattern is the list of its atoms.
\<close>

datatype atom = Lit char | Star "char list"

type_synonym Regexp = "atom list"

text \<open>The atoms match the whole of the text that is left, up to its end.\<close>

fun match_here :: "Regexp \<Rightarrow> string \<Rightarrow> bool" where
  "match_here [] s = (s = [])"
| "match_here (Lit c # as) s =
     (case s of [] \<Rightarrow> False | x # xs \<Rightarrow> x = c \<and> match_here as xs)"
| "match_here (Star cl # as) s =
     (match_here as s \<or>
      (case s of [] \<Rightarrow> False | x # xs \<Rightarrow> x \<in> set cl \<and> match_here (Star cl # as) xs))"

text \<open>
  The text before the leftmost match, if there is a match. The patterns are unanchored at
  the left, so the search tries every start position from left to right.
\<close>

fun leftmost :: "Regexp \<Rightarrow> string \<Rightarrow> string option" where
  "leftmost re [] = (if match_here re [] then Some [] else None)"
| "leftmost re (c # cs) =
     (if match_here re (c # cs) then Some []
      else map_option ((#) c) (leftmost re cs))"

definition MatchString :: "Regexp \<Rightarrow> string \<Rightarrow> bool" where
  "MatchString re s = (leftmost re s \<noteq> None)"

text \<open>
  \<open>re.ReplaceAllString(s, repl)\<close>: a match of these patterns ends at the end of the text and
  is not empty, so there is at most one match to replace, the leftmost. The replacement
  main.go passes has no \<open>$\<close>, so it is inserted as it is.
\<close>

definition ReplaceAllString :: "Regexp \<Rightarrow> string \<Rightarrow> string \<Rightarrow> string" where
  "ReplaceAllString re s repl =
     (case leftmost re s of None \<Rightarrow> s | Some pre \<Rightarrow> pre @ repl)"

definition word_class :: "char list" where
  "word_class = ''abcdefghijklmnopqrstuvwxyzABCDEFGHIJKLMNOPQRSTUVWXYZ0123456789_''"

text \<open>\<open>_spec\.rb$\<close>, \<open>_test\.rb$\<close> and \<open>test_[a-zA-Z0-9_]*\.rb$\<close>.\<close>

definition re_spec :: Regexp where
  "re_spec = map Lit ''_spec.rb''"

definition re_test :: Regexp where
  "re_test = map Lit ''_test.rb''"

definition re_test_prefix :: Regexp where
  "re_test_prefix = map Lit ''test_'' @ [Star word_class] @ map Lit ''.rb''"

section \<open>main.go: Project\<close>

record Project =
  Root :: string

definition NewProject :: "string \<Rightarrow> Project" where
  "NewProject root = \<lparr>Root = TrimSuffix root ''/''\<rparr>"

definition IsGem :: "filesystem \<Rightarrow> Project \<Rightarrow> bool" where
  "IsGem fs p =
     (case Glob fs (Join [Root p, ''*.gemspec'']) of
        Inl err \<Rightarrow> False
      | Inr matches \<Rightarrow> length matches > 0)"

definition specClues :: "Project \<Rightarrow> string list" where
  "specClues p =
     [Join [Root p, ''spec'', ''spec_helper.rb''],
      Join [Root p, ''.rspec''],
      Join [Root p, ''**'', ''spec'', ''spec_helper.rb'']]"

text \<open>The loop of \<open>IsSpec\<close> over the clues: an error skips the clue, a match returns true.\<close>

fun any_clue :: "filesystem \<Rightarrow> string list \<Rightarrow> bool" where
  "any_clue fs [] = False"
| "any_clue fs (clue # clues) =
     (case Glob fs clue of
        Inl err \<Rightarrow> any_clue fs clues
      | Inr matches \<Rightarrow> (if length matches > 0 then True else any_clue fs clues))"

definition IsSpec :: "filesystem \<Rightarrow> Project \<Rightarrow> bool" where
  "IsSpec fs p = any_clue fs (specClues p)"

definition SrcPaths :: "filesystem \<Rightarrow> Project \<Rightarrow> string list" where
  "SrcPaths fs p = (if IsGem fs p then [''lib'', []] else [''app'', ''lib''])"

definition TestAnchor :: "filesystem \<Rightarrow> Project \<Rightarrow> string" where
  "TestAnchor fs p = (if IsSpec fs p then ''spec'' else ''test'')"

definition TestPaths :: "filesystem \<Rightarrow> Project \<Rightarrow> string list" where
  "TestPaths fs p = (let anchor = TestAnchor fs p in [anchor, Join [anchor, ''lib'']])"

definition TestRegexes :: "filesystem \<Rightarrow> Project \<Rightarrow> Regexp list" where
  "TestRegexes fs p = (if IsSpec fs p then [re_spec] else [re_test, re_test_prefix])"

definition TestSuffix :: "filesystem \<Rightarrow> Project \<Rightarrow> string" where
  "TestSuffix fs p = (if IsSpec fs p then ''_spec.rb'' else ''_test.rb'')"

definition Testify :: "filesystem \<Rightarrow> Project \<Rightarrow> string \<Rightarrow> string" where
  "Testify fs p path = Replace1 path ''.rb'' (TestSuffix fs p)"

section \<open>main.go: SourceFile\<close>

record SourceFile =
  Filename :: string
  Project :: Project

definition NewSourceFile :: "string \<Rightarrow> Project \<Rightarrow> SourceFile" where
  "NewSourceFile filename project = \<lparr>Filename = filename, Project = project\<rparr>"

text \<open>The loop of \<open>IsTestFile\<close> over the patterns.\<close>

fun any_regex :: "Regexp list \<Rightarrow> string \<Rightarrow> bool" where
  "any_regex [] filename = False"
| "any_regex (regex # regexes) filename =
     (if MatchString regex filename then True else any_regex regexes filename)"

definition IsTestFile :: "filesystem \<Rightarrow> SourceFile \<Rightarrow> bool" where
  "IsTestFile fs s = any_regex (TestRegexes fs (Project s)) (Filename s)"

definition IsController :: "SourceFile \<Rightarrow> bool" where
  "IsController s =
     (Contains (Filename s) ''app/controllers/'' \<and> HasSuffix (Filename s) ''_controller.rb'')"

definition IsRequestSpec :: "SourceFile \<Rightarrow> bool" where
  "IsRequestSpec s =
     (Contains (Filename s) ''spec/requests/'' \<and> HasSuffix (Filename s) ''_controller_spec.rb'')"

subsection \<open>findAlternateSrc\<close>

text \<open>
  The body of the innermost loop is \<open>src_candidate\<close>: the candidate for one source
  directory, one test directory and one pattern, relative to the root. Each loop returns
  \<open>Some target\<close> where the Go loop returns \<open>target\<close> from the function, and \<open>None\<close> where
  it runs to its end.
\<close>

definition src_candidate :: "SourceFile \<Rightarrow> string \<Rightarrow> string \<Rightarrow> Regexp \<Rightarrow> string" where
  "src_candidate s srcPath testPath regex =
     (let candidate = Replace1 (Filename s) testPath srcPath
      in ReplaceAllString regex candidate ''.rb'')"

fun src_regexes :: "filesystem \<Rightarrow> SourceFile \<Rightarrow> string \<Rightarrow> string \<Rightarrow> Regexp list \<Rightarrow> string option" where
  "src_regexes fs s srcPath testPath [] = None"
| "src_regexes fs s srcPath testPath (regex # regexes) =
     (let candidate = src_candidate s srcPath testPath regex;
          target = Join [Root (Project s), candidate]
      in if fileExists fs target then Some target
         else src_regexes fs s srcPath testPath regexes)"

fun src_testPaths :: "filesystem \<Rightarrow> SourceFile \<Rightarrow> Regexp list \<Rightarrow> string \<Rightarrow> string list \<Rightarrow> string option" where
  "src_testPaths fs s testRegexes srcPath [] = None"
| "src_testPaths fs s testRegexes srcPath (testPath # testPaths) =
     (case src_regexes fs s srcPath testPath testRegexes of
        Some target \<Rightarrow> Some target
      | None \<Rightarrow> src_testPaths fs s testRegexes srcPath testPaths)"

fun src_srcPaths :: "filesystem \<Rightarrow> SourceFile \<Rightarrow> Regexp list \<Rightarrow> string list \<Rightarrow> string list \<Rightarrow> string option" where
  "src_srcPaths fs s testRegexes testPaths [] = None"
| "src_srcPaths fs s testRegexes testPaths (srcPath # srcPaths) =
     (case src_testPaths fs s testRegexes srcPath testPaths of
        Some target \<Rightarrow> Some target
      | None \<Rightarrow> src_srcPaths fs s testRegexes testPaths srcPaths)"

text \<open>The candidate of the special case for request specs, relative to the root.\<close>

definition request_spec_candidate :: "SourceFile \<Rightarrow> string" where
  "request_spec_candidate s =
     (let candidate = Replace1 (Filename s) ''spec/requests/'' ''app/controllers/''
      in Replace1 candidate ''_controller_spec.rb'' ''_controller.rb'')"

definition findAlternateSrc :: "filesystem \<Rightarrow> SourceFile \<Rightarrow> string" where
  "findAlternateSrc fs s =
     (let target = Join [Root (Project s), request_spec_candidate s]
      in if IsRequestSpec s \<and> fileExists fs target then target
         else
           let srcPaths = SrcPaths fs (Project s);
               testPaths = TestPaths fs (Project s);
               testRegexes = TestRegexes fs (Project s)
           in (case src_srcPaths fs s testRegexes testPaths srcPaths of
                 Some target \<Rightarrow> target
               | None \<Rightarrow> []))"

subsection \<open>findAlternateTest\<close>

text \<open>
  The body of the inner loop is \<open>test_candidate\<close>: the candidate for one test directory
  and one source directory, relative to the root.
\<close>

definition test_candidate :: "filesystem \<Rightarrow> SourceFile \<Rightarrow> string \<Rightarrow> string \<Rightarrow> string" where
  "test_candidate fs s testPath srcPath =
     (let candidate =
            (if srcPath = [] then Join [testPath, Filename s]
             else Replace1 (Filename s) srcPath testPath)
      in Testify fs (Project s) candidate)"

fun test_srcPaths :: "filesystem \<Rightarrow> SourceFile \<Rightarrow> string \<Rightarrow> string list \<Rightarrow> string option" where
  "test_srcPaths fs s testPath [] = None"
| "test_srcPaths fs s testPath (srcPath # srcPaths) =
     (let candidate = test_candidate fs s testPath srcPath;
          target = Join [Root (Project s), candidate]
      in if fileExists fs target then Some target
         else test_srcPaths fs s testPath srcPaths)"

fun test_testPaths :: "filesystem \<Rightarrow> SourceFile \<Rightarrow> string list \<Rightarrow> string list \<Rightarrow> string option" where
  "test_testPaths fs s srcPaths [] = None"
| "test_testPaths fs s srcPaths (testPath # testPaths) =
     (case test_srcPaths fs s testPath srcPaths of
        Some target \<Rightarrow> Some target
      | None \<Rightarrow> test_testPaths fs s srcPaths testPaths)"

text \<open>The candidate of the special case for controllers, relative to the root.\<close>

definition controller_candidate :: "SourceFile \<Rightarrow> string" where
  "controller_candidate s =
     (let candidate = Replace1 (Filename s) ''app/controllers/'' ''spec/requests/''
      in Replace1 candidate ''_controller.rb'' ''_controller_spec.rb'')"

definition findAlternateTest :: "filesystem \<Rightarrow> SourceFile \<Rightarrow> string" where
  "findAlternateTest fs s =
     (let target = Join [Root (Project s), controller_candidate s]
      in if IsController s \<and> fileExists fs target then target
         else
           let testPaths = TestPaths fs (Project s);
               srcPaths = SrcPaths fs (Project s)
           in (case test_testPaths fs s srcPaths testPaths of
                 Some target \<Rightarrow> target
               | None \<Rightarrow> []))"

definition AlternateFile :: "filesystem \<Rightarrow> SourceFile \<Rightarrow> string" where
  "AlternateFile fs s = (if IsTestFile fs s then findAlternateSrc fs s else findAlternateTest fs s)"

section \<open>The candidates in the order the loops try them\<close>

text \<open>
  The first path of a list that exists, and the empty string when none does: what a loop
  with an early return over the list computes.
\<close>

fun first_existing :: "filesystem \<Rightarrow> string list \<Rightarrow> string" where
  "first_existing fs [] = []"
| "first_existing fs (t # ts) = (if fileExists fs t then t else first_existing fs ts)"

text \<open>
  The targets of the general source-to-test rule: the pairs of a test directory and a
  source directory with the test directory varying slower.
\<close>

definition test_targets :: "filesystem \<Rightarrow> SourceFile \<Rightarrow> string list" where
  "test_targets fs s =
     map (\<lambda>(testPath, srcPath). Join [Root (Project s), test_candidate fs s testPath srcPath])
       (List.product (TestPaths fs (Project s)) (SrcPaths fs (Project s)))"


lemma fileExists_not_empty: "fileExists fs t \<Longrightarrow> t \<noteq> []"
  by (auto simp: fileExists_def os_Stat_def)

lemma first_existing_find:
  "first_existing fs ts = (case List.find (fileExists fs) ts of None \<Rightarrow> [] | Some t \<Rightarrow> t)"
  by (induction ts) auto

lemma find_append_case:
  "List.find P (xs @ ys) = (case List.find P xs of None \<Rightarrow> List.find P ys | Some x \<Rightarrow> Some x)"
  by (induction xs) auto

lemma first_existing_empty_iff:
  "(first_existing fs ts = []) = (\<forall>t \<in> set ts. \<not> fileExists fs t)"
  by (induction ts) (auto dest: fileExists_not_empty)

lemma first_existing_index:
  "first_existing fs ts \<noteq> [] \<Longrightarrow>
   \<exists>i < length ts. first_existing fs ts = ts ! i \<and> fileExists fs (ts ! i) \<and>
     (\<forall>j < i. \<not> fileExists fs (ts ! j))"
proof (induction ts)
  case Nil
  then show ?case by simp
next
  case (Cons t ts)
  show ?case
  proof (cases "fileExists fs t")
    case True
    then have "first_existing fs (t # ts) = (t # ts) ! 0 \<and> fileExists fs ((t # ts) ! 0)"
      by simp
    then show ?thesis by blast
  next
    case False
    with Cons.prems have "first_existing fs ts \<noteq> []" by simp
    then obtain i where i: "i < length ts" "first_existing fs ts = ts ! i"
        "fileExists fs (ts ! i)" "\<forall>j < i. \<not> fileExists fs (ts ! j)"
      using Cons.IH by blast
    have "\<forall>j < Suc i. \<not> fileExists fs ((t # ts) ! j)"
      using False i(4) by (auto simp: less_Suc_eq_0_disj)
    with i False show ?thesis
      by (intro exI [of _ "Suc i"]) simp
  qed
qed

lemma first_existing_skip:
  "\<forall>t \<in> set before. \<not> fileExists fs t \<Longrightarrow> fileExists fs t \<Longrightarrow>
   first_existing fs (before @ t # after) = t"
  by (induction before) auto

subsection \<open>The loops of findAlternateTest\<close>

lemma test_srcPaths_find:
  "test_srcPaths fs s testPath srcPaths =
   List.find (fileExists fs)
     (map (\<lambda>srcPath. Join [Root (Project s), test_candidate fs s testPath srcPath]) srcPaths)"
  by (induction srcPaths) (auto simp: Let_def)

lemma test_testPaths_find:
  "test_testPaths fs s srcPaths testPaths =
   List.find (fileExists fs)
     (map (\<lambda>(testPath, srcPath). Join [Root (Project s), test_candidate fs s testPath srcPath])
       (List.product testPaths srcPaths))"
  by (induction testPaths)
     (auto simp: test_srcPaths_find find_append_case comp_def split: option.splits)

lemma findAlternateTest_general:
  "\<not> (IsController s \<and> fileExists fs (Join [Root (Project s), controller_candidate s])) \<Longrightarrow>
   findAlternateTest fs s = first_existing fs (test_targets fs s)"
  by (auto simp: findAlternateTest_def Let_def test_testPaths_find first_existing_find
      test_targets_def split: option.splits)

lemma findAlternateTest_special:
  "IsController s \<Longrightarrow> fileExists fs (Join [Root (Project s), controller_candidate s]) \<Longrightarrow>
   findAlternateTest fs s = Join [Root (Project s), controller_candidate s]"
  by (simp add: findAlternateTest_def Let_def)

subsection \<open>The loops of findAlternateSrc\<close>





lemma findAlternateSrc_special:
  "IsRequestSpec s \<Longrightarrow> fileExists fs (Join [Root (Project s), request_spec_candidate s]) \<Longrightarrow>
   findAlternateSrc fs s = Join [Root (Project s), request_spec_candidate s]"
  by (simp add: findAlternateSrc_def Let_def)

section \<open>Example projects\<close>

text \<open>
  A Rails application with RSpec, rooted at \<open>/p\<close>: a controller with its request spec and
  its controller spec, and a model with two copies of its source.
\<close>

definition rails_rspec :: filesystem where
  "rails_rspec =
     [(''/p'', Dir), (''/p/.rspec'', File),
      (''/p/app'', Dir), (''/p/app/controllers'', Dir), (''/p/app/controllers/api'', Dir),
      (''/p/app/controllers/api/v1'', Dir),
      (''/p/app/controllers/api/v1/foos_controller.rb'', File),
      (''/p/spec'', Dir), (''/p/spec/requests'', Dir), (''/p/spec/requests/api'', Dir),
      (''/p/spec/requests/api/v1'', Dir),
      (''/p/spec/requests/api/v1/foos_controller_spec.rb'', File),
      (''/p/spec/controllers'', Dir), (''/p/spec/controllers/api'', Dir),
      (''/p/spec/controllers/api/v1'', Dir),
      (''/p/spec/controllers/api/v1/foos_controller_spec.rb'', File)]"

text \<open>The same controller and request spec in an application without any RSpec marker.\<close>

definition rails_minitest :: filesystem where
  "rails_minitest =
     [(''/p'', Dir),
      (''/p/app'', Dir), (''/p/app/controllers'', Dir),
      (''/p/app/controllers/foos_controller.rb'', File),
      (''/p/spec'', Dir), (''/p/spec/requests'', Dir),
      (''/p/spec/requests/foos_controller_spec.rb'', File),
      (''/p/test'', Dir), (''/p/test/controllers'', Dir),
      (''/p/test/controllers/foos_controller_test.rb'', File)]"

definition project_p :: Project where
  "project_p = NewProject ''/p''"

section \<open>The controller special case\<close>

text \<open>
  C5. If the path contains \<open>app/controllers/\<close> and ends with \<open>_controller.rb\<close>, and the one
  candidate obtained by replacing \<open>app/controllers/\<close> with \<open>spec/requests/\<close> and
  \<open>_controller.rb\<close> with \<open>_controller_spec.rb\<close> exists, then \<open>findAlternateTest\<close> returns
  that candidate, whatever else exists: no candidate of the general rule is looked at.
\<close>

theorem controller_short_circuit:
  assumes "Contains (Filename s) ''app/controllers/''"
    and "HasSuffix (Filename s) ''_controller.rb''"
    and "fileExists fs (Join [Root (Project s),
           Replace1 (Replace1 (Filename s) ''app/controllers/'' ''spec/requests/'')
             ''_controller.rb'' ''_controller_spec.rb''])"
  shows "findAlternateTest fs s =
         Join [Root (Project s),
           Replace1 (Replace1 (Filename s) ''app/controllers/'' ''spec/requests/'')
             ''_controller.rb'' ''_controller_spec.rb'']"
proof -
  have "IsController s"
    using assms(1,2) by (simp add: IsController_def)
  moreover have "controller_candidate s =
      Replace1 (Replace1 (Filename s) ''app/controllers/'' ''spec/requests/'')
        ''_controller.rb'' ''_controller_spec.rb''"
    by (simp add: controller_candidate_def)
  ultimately show ?thesis
    using assms(3) findAlternateTest_special [of s fs] by simp
qed

text \<open>
  In the example the generic candidate \<open>spec/controllers/api/v1/foos_controller_spec.rb\<close>
  exists too, and it is what the general rule alone would return.
\<close>

theorem controller_short_circuit_witness:
  "Contains ''app/controllers/api/v1/foos_controller.rb'' ''app/controllers/'' \<and>
   HasSuffix ''app/controllers/api/v1/foos_controller.rb'' ''_controller.rb'' \<and>
   fileExists rails_rspec ''/p/spec/controllers/api/v1/foos_controller_spec.rb'' \<and>
   first_existing rails_rspec
     (test_targets rails_rspec (NewSourceFile ''app/controllers/api/v1/foos_controller.rb'' project_p))
     = ''/p/spec/controllers/api/v1/foos_controller_spec.rb'' \<and>
   findAlternateTest rails_rspec
     (NewSourceFile ''app/controllers/api/v1/foos_controller.rb'' project_p)
     = ''/p/spec/requests/api/v1/foos_controller_spec.rb''"
proof -
  let ?s = "NewSourceFile ''app/controllers/api/v1/foos_controller.rb'' project_p"
  have f: "Filename ?s = ''app/controllers/api/v1/foos_controller.rb''"
    by (simp add: NewSourceFile_def)
  have h1: "Contains (Filename ?s) ''app/controllers/''"
    unfolding f by code_simp
  have h2: "HasSuffix (Filename ?s) ''_controller.rb''"
    unfolding f by code_simp
  have c: "Join [Root (Project ?s),
             Replace1 (Replace1 (Filename ?s) ''app/controllers/'' ''spec/requests/'')
               ''_controller.rb'' ''_controller_spec.rb'']
           = ''/p/spec/requests/api/v1/foos_controller_spec.rb''"
    by code_simp
  have h3: "fileExists rails_rspec (Join [Root (Project ?s),
             Replace1 (Replace1 (Filename ?s) ''app/controllers/'' ''spec/requests/'')
               ''_controller.rb'' ''_controller_spec.rb''])"
    unfolding c by code_simp
  have g1: "fileExists rails_rspec ''/p/spec/controllers/api/v1/foos_controller_spec.rb''"
    by code_simp
  have g2: "first_existing rails_rspec (test_targets rails_rspec ?s)
            = ''/p/spec/controllers/api/v1/foos_controller_spec.rb''"
    by code_simp
  have "findAlternateTest rails_rspec ?s = ''/p/spec/requests/api/v1/foos_controller_spec.rb''"
    using controller_short_circuit [OF h1 h2 h3] unfolding c .
  with h1 h2 g1 g2 show ?thesis
    unfolding f by blast
qed

text \<open>
  C10. The special case does not look at the detected convention. \<open>IsController\<close>,
  \<open>IsRequestSpec\<close> and the two special candidates are functions of the file name alone
  (they take no filesystem, and replacing the project changes nothing), built from the
  literal strings \<open>app/controllers/\<close>, \<open>spec/requests/\<close>, \<open>_controller.rb\<close> and
  \<open>_controller_spec.rb\<close>; and in every filesystem, whatever \<open>IsGem\<close> and \<open>IsSpec\<close> say
  there, an existing special candidate is the result.
\<close>

theorem special_case_ignores_convention:
  "IsController (s\<lparr>Project := p\<rparr>) = IsController s \<and>
   IsRequestSpec (s\<lparr>Project := p\<rparr>) = IsRequestSpec s \<and>
   controller_candidate (s\<lparr>Project := p\<rparr>) = controller_candidate s \<and>
   request_spec_candidate (s\<lparr>Project := p\<rparr>) = request_spec_candidate s \<and>
   IsController s =
     (Contains (Filename s) ''app/controllers/'' \<and> HasSuffix (Filename s) ''_controller.rb'') \<and>
   IsRequestSpec s =
     (Contains (Filename s) ''spec/requests/'' \<and> HasSuffix (Filename s) ''_controller_spec.rb'') \<and>
   (IsController s \<and> fileExists fs (Join [Root (Project s), controller_candidate s]) \<longrightarrow>
      findAlternateTest fs s =
      Join [Root (Project s),
        Replace1 (Replace1 (Filename s) ''app/controllers/'' ''spec/requests/'')
          ''_controller.rb'' ''_controller_spec.rb'']) \<and>
   (IsRequestSpec s \<and> fileExists fs (Join [Root (Project s), request_spec_candidate s]) \<longrightarrow>
      findAlternateSrc fs s =
      Join [Root (Project s),
        Replace1 (Replace1 (Filename s) ''spec/requests/'' ''app/controllers/'')
          ''_controller_spec.rb'' ''_controller.rb''])"
proof -
  have a: "IsController (s\<lparr>Project := p\<rparr>) = IsController s"
    by (simp add: IsController_def)
  have b: "IsRequestSpec (s\<lparr>Project := p\<rparr>) = IsRequestSpec s"
    by (simp add: IsRequestSpec_def)
  have c: "controller_candidate (s\<lparr>Project := p\<rparr>) = controller_candidate s"
    by (simp add: controller_candidate_def)
  have d: "request_spec_candidate (s\<lparr>Project := p\<rparr>) = request_spec_candidate s"
    by (simp add: request_spec_candidate_def)
  have e: "IsController s \<and> fileExists fs (Join [Root (Project s), controller_candidate s]) \<longrightarrow>
      findAlternateTest fs s =
      Join [Root (Project s),
        Replace1 (Replace1 (Filename s) ''app/controllers/'' ''spec/requests/'')
          ''_controller.rb'' ''_controller_spec.rb'']"
    using findAlternateTest_special [of s fs] by (simp add: controller_candidate_def)
  have f: "IsRequestSpec s \<and> fileExists fs (Join [Root (Project s), request_spec_candidate s]) \<longrightarrow>
      findAlternateSrc fs s =
      Join [Root (Project s),
        Replace1 (Replace1 (Filename s) ''spec/requests/'' ''app/controllers/'')
          ''_controller_spec.rb'' ''_controller.rb'']"
    using findAlternateSrc_special [of s fs] by (simp add: request_spec_candidate_def)
  from a b c d e f show ?thesis
    by (simp only: IsController_def IsRequestSpec_def simp_thms)
qed

text \<open>
  In the application without RSpec the test directory is \<open>test\<close> and the suffix is
  \<open>_test.rb\<close>, the controller's test in that style exists, and still the controller
  resolves to \<open>spec/requests/foos_controller_spec.rb\<close>, and that file back to the
  controller through \<open>findAlternateSrc\<close>.
\<close>

theorem special_case_ignores_convention_witness:
  "\<not> IsSpec rails_minitest project_p \<and> \<not> IsGem rails_minitest project_p \<and>
   TestSuffix rails_minitest project_p = ''_test.rb'' \<and>
   fileExists rails_minitest ''/p/test/controllers/foos_controller_test.rb'' \<and>
   findAlternateTest rails_minitest
     (NewSourceFile ''app/controllers/foos_controller.rb'' project_p)
     = ''/p/spec/requests/foos_controller_spec.rb'' \<and>
   findAlternateSrc rails_minitest
     (NewSourceFile ''spec/requests/foos_controller_spec.rb'' project_p)
     = ''/p/app/controllers/foos_controller.rb''"
proof -
  let ?s = "NewSourceFile ''app/controllers/foos_controller.rb'' project_p"
  let ?t = "NewSourceFile ''spec/requests/foos_controller_spec.rb'' project_p"
  have n1: "\<not> IsSpec rails_minitest project_p" by code_simp
  have n2: "\<not> IsGem rails_minitest project_p" by code_simp
  have n3: "TestSuffix rails_minitest project_p = ''_test.rb''" by code_simp
  have n4: "fileExists rails_minitest ''/p/test/controllers/foos_controller_test.rb''"
    by code_simp
  have s1: "IsController ?s \<and>
      fileExists rails_minitest (Join [Root (Project ?s), controller_candidate ?s])"
    by code_simp
  have s2: "Join [Root (Project ?s),
        Replace1 (Replace1 (Filename ?s) ''app/controllers/'' ''spec/requests/'')
          ''_controller.rb'' ''_controller_spec.rb'']
      = ''/p/spec/requests/foos_controller_spec.rb''"
    by code_simp
  have t1: "IsRequestSpec ?t \<and>
      fileExists rails_minitest (Join [Root (Project ?t), request_spec_candidate ?t])"
    by code_simp
  have t2: "Join [Root (Project ?t),
        Replace1 (Replace1 (Filename ?t) ''spec/requests/'' ''app/controllers/'')
          ''_controller_spec.rb'' ''_controller.rb'']
      = ''/p/app/controllers/foos_controller.rb''"
    by code_simp
  have r1: "findAlternateTest rails_minitest ?s = ''/p/spec/requests/foos_controller_spec.rb''"
    using special_case_ignores_convention [where s = "?s" and p = project_p and fs = rails_minitest] s1 s2 by metis
  have r2: "findAlternateSrc rails_minitest ?t = ''/p/app/controllers/foos_controller.rb''"
    using special_case_ignores_convention [where s = "?t" and p = project_p and fs = rails_minitest] t1 t2 by metis
  from n1 n2 n3 n4 r1 r2 show ?thesis by blast
qed

section \<open>The general source-to-test rule\<close>

text \<open>A library-style project with Minitest: one source file and two tests for it.\<close>

definition lib_minitest :: filesystem where
  "lib_minitest =
     [(''/p'', Dir), (''/p/lib'', Dir), (''/p/lib/user.rb'', File),
      (''/p/test'', Dir), (''/p/test/user_test.rb'', File),
      (''/p/test/lib'', Dir), (''/p/test/lib/user_test.rb'', File)]"

text \<open>
  C6. When the special case returns nothing, the candidates are tried in the order
  (test directory 0, source directory 0), (0, 1), (1, 0), (1, 1): the test directory
  varies in the outer loop. The result is the first target of that list that exists: it
  is at some index \<open>i\<close>, it exists, and no target at an index below \<open>i\<close> exists. When no
  target exists the result is the empty string; the result is a plain string in every
  case, never an error.
\<close>

theorem general_rule_order:
  assumes "\<not> (IsController s \<and> fileExists fs (Join [Root (Project s), controller_candidate s]))"
  shows "test_targets fs s =
           [Join [Root (Project s), test_candidate fs s (TestPaths fs (Project s) ! 0) (SrcPaths fs (Project s) ! 0)],
            Join [Root (Project s), test_candidate fs s (TestPaths fs (Project s) ! 0) (SrcPaths fs (Project s) ! 1)],
            Join [Root (Project s), test_candidate fs s (TestPaths fs (Project s) ! 1) (SrcPaths fs (Project s) ! 0)],
            Join [Root (Project s), test_candidate fs s (TestPaths fs (Project s) ! 1) (SrcPaths fs (Project s) ! 1)]] \<and>
         findAlternateTest fs s = first_existing fs (test_targets fs s) \<and>
         ((findAlternateTest fs s = []) = (\<forall>t \<in> set (test_targets fs s). \<not> fileExists fs t)) \<and>
         (findAlternateTest fs s \<noteq> [] \<longrightarrow>
            (\<exists>i < length (test_targets fs s).
               findAlternateTest fs s = test_targets fs s ! i \<and>
               fileExists fs (test_targets fs s ! i) \<and>
               (\<forall>j < i. \<not> fileExists fs (test_targets fs s ! j))))"
proof -
  have order: "test_targets fs s =
           [Join [Root (Project s), test_candidate fs s (TestPaths fs (Project s) ! 0) (SrcPaths fs (Project s) ! 0)],
            Join [Root (Project s), test_candidate fs s (TestPaths fs (Project s) ! 0) (SrcPaths fs (Project s) ! 1)],
            Join [Root (Project s), test_candidate fs s (TestPaths fs (Project s) ! 1) (SrcPaths fs (Project s) ! 0)],
            Join [Root (Project s), test_candidate fs s (TestPaths fs (Project s) ! 1) (SrcPaths fs (Project s) ! 1)]]"
    by (simp add: test_targets_def TestPaths_def SrcPaths_def Let_def)
  have eq: "findAlternateTest fs s = first_existing fs (test_targets fs s)"
    using assms by (rule findAlternateTest_general)
  have none: "(findAlternateTest fs s = []) = (\<forall>t \<in> set (test_targets fs s). \<not> fileExists fs t)"
    unfolding eq by (rule first_existing_empty_iff)
  have some: "findAlternateTest fs s \<noteq> [] \<longrightarrow>
            (\<exists>i < length (test_targets fs s).
               findAlternateTest fs s = test_targets fs s ! i \<and>
               fileExists fs (test_targets fs s ! i) \<and>
               (\<forall>j < i. \<not> fileExists fs (test_targets fs s ! j)))"
    unfolding eq using first_existing_index [of fs "test_targets fs s"] by blast
  from order eq none some show ?thesis by blast
qed

text \<open>
  In the example both \<open>test/user_test.rb\<close> (index 1) and \<open>test/lib/user_test.rb\<close>
  (index 3) exist; the one at index 1 is returned.
\<close>

theorem general_rule_order_witness:
  "\<not> (IsController (NewSourceFile ''lib/user.rb'' project_p) \<and>
      fileExists lib_minitest
        (Join [Root (Project (NewSourceFile ''lib/user.rb'' project_p)),
               controller_candidate (NewSourceFile ''lib/user.rb'' project_p)])) \<and>
   test_targets lib_minitest (NewSourceFile ''lib/user.rb'' project_p) =
     [''/p/lib/user_test.rb'', ''/p/test/user_test.rb'',
      ''/p/lib/user_test.rb'', ''/p/test/lib/user_test.rb''] \<and>
   fileExists lib_minitest ''/p/test/lib/user_test.rb'' \<and>
   findAlternateTest lib_minitest (NewSourceFile ''lib/user.rb'' project_p) =
     ''/p/test/user_test.rb''"
proof -
  let ?s = "NewSourceFile ''lib/user.rb'' project_p"
  have h: "\<not> (IsController ?s \<and>
      fileExists lib_minitest (Join [Root (Project ?s), controller_candidate ?s]))"
    by code_simp
  have ts: "test_targets lib_minitest ?s =
     [''/p/lib/user_test.rb'', ''/p/test/user_test.rb'',
      ''/p/lib/user_test.rb'', ''/p/test/lib/user_test.rb'']"
    by code_simp
  have ex: "fileExists lib_minitest ''/p/test/lib/user_test.rb''"
    by code_simp
  have fe: "first_existing lib_minitest
     [''/p/lib/user_test.rb'', ''/p/test/user_test.rb'',
      ''/p/lib/user_test.rb'', ''/p/test/lib/user_test.rb''] = ''/p/test/user_test.rb''"
    by code_simp
  have "findAlternateTest lib_minitest ?s = first_existing lib_minitest (test_targets lib_minitest ?s)"
    using general_rule_order [OF h] by blast
  then have "findAlternateTest lib_minitest ?s = ''/p/test/user_test.rb''"
    unfolding ts fe .
  with h ts ex show ?thesis by blast
qed

section \<open>The empty source directory of a gem\<close>



lemma Replace1_absent:
  "\<not> Contains s old \<Longrightarrow> Replace1 s old new = s"
  by (induction s) (auto split: if_splits)




section \<open>Test files named with the prefix\<close>

text \<open>
  An application without RSpec whose only test for \<open>app/models/user.rb\<close> is named with
  the prefix, \<open>test/models/test_user.rb\<close>.
\<close>

definition rails_prefix :: filesystem where
  "rails_prefix =
     [(''/p'', Dir), (''/p/app'', Dir), (''/p/app/models'', Dir),
      (''/p/app/models/user.rb'', File),
      (''/p/test'', Dir), (''/p/test/models'', Dir),
      (''/p/test/models/test_user.rb'', File)]"

text \<open>
  In every application with the prefix/suffix convention the four targets of
  \<open>app/models/user.rb\<close> carry the suffix \<open>_test.rb\<close>: \<open>Testify\<close> is the only way a test
  name is made, and no target is named with the prefix.
\<close>

lemma suffix_named_targets_only:
  assumes "\<not> IsGem fs (Project s)" and "\<not> IsSpec fs (Project s)"
    and "Filename s = ''app/models/user.rb''"
  shows "test_targets fs s =
           [Join [Root (Project s), ''test/models/user_test.rb''],
            Join [Root (Project s), ''app/models/user_test.rb''],
            Join [Root (Project s), ''test/lib/models/user_test.rb''],
            Join [Root (Project s), ''app/models/user_test.rb'']]"
proof -
  have j: "Join [''test'', ''lib''] = ''test/lib''"
    by code_simp
  show ?thesis
    using assms
    by (simp add: test_targets_def TestPaths_def TestAnchor_def SrcPaths_def test_candidate_def
        Testify_def TestSuffix_def j)
qed

text \<open>
  C1 on the code: the application has the prefix/suffix convention,
  \<open>test/models/test_user.rb\<close> exists and \<open>test/models/user_test.rb\<close> does not; the
  targets tried are the four suffix-named ones, none exists, and the result is the empty
  string, not the prefix-named file.
\<close>

theorem prefix_named_test_not_found:
  "\<not> IsGem rails_prefix project_p \<and> \<not> IsSpec rails_prefix project_p \<and>
   \<not> IsTestFile rails_prefix (NewSourceFile ''app/models/user.rb'' project_p) \<and>
   fileExists rails_prefix ''/p/test/models/test_user.rb'' \<and>
   test_targets rails_prefix (NewSourceFile ''app/models/user.rb'' project_p) =
     [''/p/test/models/user_test.rb'', ''/p/app/models/user_test.rb'',
      ''/p/test/lib/models/user_test.rb'', ''/p/app/models/user_test.rb''] \<and>
   findAlternateTest rails_prefix (NewSourceFile ''app/models/user.rb'' project_p) = [] \<and>
   AlternateFile rails_prefix (NewSourceFile ''app/models/user.rb'' project_p) = []"
  by code_simp

section \<open>Detecting the descriptive-spec convention\<close>

text \<open>
  Two projects whose only RSpec marker is a \<open>spec_helper.rb\<close> below the root: two
  directories down in the first, one directory down in the second.
\<close>

definition nested_helper :: filesystem where
  "nested_helper =
     [(''/p'', Dir), (''/p/engines'', Dir), (''/p/engines/core'', Dir),
      (''/p/engines/core/spec'', Dir), (''/p/engines/core/spec/spec_helper.rb'', File)]"

definition nested_once :: filesystem where
  "nested_once =
     [(''/p'', Dir), (''/p/engines'', Dir),
      (''/p/engines/spec'', Dir), (''/p/engines/spec/spec_helper.rb'', File)]"

text \<open>
  C3 on the code: the third probe is the pattern \<open>/p/**/spec/spec_helper.rb\<close>, and in
  \<open>filepath.Glob\<close> the element \<open>**\<close> stands for exactly one directory. The helper one
  directory down is found; the helper two directories down is not, and \<open>IsSpec\<close> is false
  although a spec helper exists under the tree.
\<close>

theorem spec_helper_two_levels_down_not_seen:
  "specClues project_p =
     [''/p/spec/spec_helper.rb'', ''/p/.rspec'', ''/p/**/spec/spec_helper.rb''] \<and>
   fileExists nested_helper ''/p/engines/core/spec/spec_helper.rb'' \<and>
   Glob nested_helper ''/p/**/spec/spec_helper.rb'' = Inr [] \<and>
   \<not> IsSpec nested_helper project_p \<and>
   Glob nested_once ''/p/**/spec/spec_helper.rb'' = Inr [''/p/engines/spec/spec_helper.rb''] \<and>
   IsSpec nested_once project_p"
  by code_simp

section \<open>Classifying a path\<close>

text \<open>
  C4 on the code: the pattern \<open>test_[a-zA-Z0-9_]*\.rb$\<close> is not tied to the start of the
  final segment, and its class has no hyphen. In the application without RSpec the model
  \<open>app/models/contest_entry.rb\<close> is classified as a test file (the pattern matches
  \<open>test_entry.rb\<close> inside \<open>contest_entry.rb\<close>), and \<open>test/models/test_user-profile.rb\<close>,
  whose final segment begins with \<open>test_\<close>, is classified as a source file.
\<close>

theorem prefix_pattern_not_anchored:
  "\<not> IsSpec rails_minitest project_p \<and>
   IsTestFile rails_minitest (NewSourceFile ''app/models/contest_entry.rb'' project_p) \<and>
   \<not> HasSuffix ''app/models/contest_entry.rb'' ''_test.rb'' \<and>
   \<not> prefix ''test_'' (snd (Split ''app/models/contest_entry.rb'')) \<and>
   prefix ''test_'' (snd (Split ''test/models/test_user-profile.rb'')) \<and>
   \<not> IsTestFile rails_minitest (NewSourceFile ''test/models/test_user-profile.rb'' project_p)"
  by code_simp

section \<open>Facts about the string and pattern functions\<close>

lemma Contains_length: "Contains s sub \<Longrightarrow> length sub \<le> length s"
  by (induction s) (auto dest: prefix_length_le)

lemma Replace1_empty_old: "Replace1 s [] new = new @ s"
  by (cases s) simp_all


lemma prefix_append_short:
  "prefix xs (ys @ zs) \<Longrightarrow> length xs \<le> length ys \<Longrightarrow> prefix xs ys"
  using prefix_length_prefix [of xs "ys @ zs" ys] by simp

text \<open>An occurrence inside the front part is the one that is replaced.\<close>

lemma Replace1_in_front:
  "Contains d old \<Longrightarrow> Replace1 (d @ r) old new = Replace1 d old new @ r"
proof (induction d)
  case Nil
  then show ?case by (simp add: Replace1_empty_old)
next
  case (Cons c d)
  show ?case
  proof (cases "prefix old (c # d)")
    case True
    then have "prefix old (c # d @ r)"
      by (metis append_Cons prefix_prefix)
    moreover have "length old \<le> length (c # d)"
      using True by (rule prefix_length_le)
    then have "drop (length old) ((c # d) @ r) = drop (length old) (c # d) @ r"
      using drop_append [of "length old" "c # d" r] by simp
    ultimately show ?thesis
      using True by simp
  next
    case False
    with Cons.prems have in_d: "Contains d old" by simp
    then have "length old \<le> length (c # d)"
      using Contains_length [of d old] by simp
    with False have "\<not> prefix old (c # d @ r)"
      using prefix_append_short [of old "c # d" r] by auto
    with False in_d Cons.IH show ?thesis by simp
  qed
qed

lemma Contains_has_chars: "Contains s sub \<Longrightarrow> set sub \<subseteq> set s"
proof (induction s)
  case Nil
  then show ?case by simp
next
  case (Cons c s)
  from Cons.prems consider "prefix sub (c # s)" | "Contains s sub"
    by auto
  then show ?case
  proof cases
    case 1
    then show ?thesis by (rule set_mono_prefix)
  next
    case 2
    with Cons.IH show ?thesis by auto
  qed
qed

lemma match_here_Lits: "match_here (map Lit a @ r) s = (\<exists>t. s = a @ t \<and> match_here r t)"
  by (induction a arbitrary: s) (auto split: list.splits)

lemma match_here_Lits_only: "match_here (map Lit a) s = (s = a)"
  using match_here_Lits [of a "[]" s] by simp

lemma match_here_Star:
  "match_here (Star cl # r) s = (\<exists>w t. s = w @ t \<and> set w \<subseteq> set cl \<and> match_here r t)"
proof (induction s)
  case Nil
  then show ?case by auto
next
  case (Cons x xs)
  show ?case
  proof
    assume "match_here (Star cl # r) (x # xs)"
    then consider "match_here r (x # xs)" | "x \<in> set cl" "match_here (Star cl # r) xs"
      by auto
    then show "\<exists>w t. x # xs = w @ t \<and> set w \<subseteq> set cl \<and> match_here r t"
    proof cases
      case 1
      then have "x # xs = [] @ (x # xs) \<and> set [] \<subseteq> set cl \<and> match_here r (x # xs)"
        by simp
      then show ?thesis by blast
    next
      case 2
      then obtain w t where "xs = w @ t" "set w \<subseteq> set cl" "match_here r t"
        using Cons.IH by blast
      with 2(1) have "x # xs = (x # w) @ t \<and> set (x # w) \<subseteq> set cl \<and> match_here r t"
        by simp
      then show ?thesis by blast
    qed
  next
    assume "\<exists>w t. x # xs = w @ t \<and> set w \<subseteq> set cl \<and> match_here r t"
    then obtain w t where wt: "x # xs = w @ t" "set w \<subseteq> set cl" "match_here r t"
      by blast
    show "match_here (Star cl # r) (x # xs)"
    proof (cases w)
      case Nil
      with wt show ?thesis by simp
    next
      case (Cons y w')
      with wt have "x \<in> set cl" "xs = w' @ t" "set w' \<subseteq> set cl"
        by auto
      with wt(3) Cons.IH show ?thesis by auto
    qed
  qed
qed

text \<open>What the prefix pattern matches up to the end of the text.\<close>

lemma match_here_test_prefix:
  "match_here re_test_prefix s =
   (\<exists>w. s = ''test_'' @ w @ ''.rb'' \<and> set w \<subseteq> set word_class)"
proof -
  have "match_here re_test_prefix s =
        (\<exists>t. s = ''test_'' @ t \<and> match_here (Star word_class # map Lit ''.rb'') t)"
    unfolding re_test_prefix_def using match_here_Lits [of "''test_''" _ s] by simp
  also have "\<dots> = (\<exists>t. s = ''test_'' @ t \<and>
        (\<exists>w u. t = w @ u \<and> set w \<subseteq> set word_class \<and> u = ''.rb''))"
    by (simp only: match_here_Star match_here_Lits_only)
  also have "\<dots> = (\<exists>w. s = ''test_'' @ w @ ''.rb'' \<and> set w \<subseteq> set word_class)"
    by blast
  finally show ?thesis .
qed

lemma slash_not_word: "CHR ''/'' \<notin> set word_class"
  by (simp add: word_class_def)

lemma match_here_test_prefix_no_slash:
  "match_here re_test_prefix s \<Longrightarrow> CHR ''/'' \<notin> set s"
  using slash_not_word by (auto simp: match_here_test_prefix)

text \<open>
  The leftmost match: when the pattern matches \<open>u\<close> and no text that starts earlier, inside
  \<open>pre\<close>, the text before the match is \<open>pre\<close>.
\<close>

lemma leftmost_at:
  assumes "match_here re u"
    and "\<forall>p1 p2. pre = p1 @ p2 \<and> p2 \<noteq> [] \<longrightarrow> \<not> match_here re (p2 @ u)"
  shows "leftmost re (pre @ u) = Some pre"
  using assms(2)
proof (induction pre)
  case Nil
  with assms(1) show ?case by (cases u) simp_all
next
  case (Cons c pre)
  have "\<not> match_here re ((c # pre) @ u)"
    using Cons.prems by blast
  moreover have "\<forall>p1 p2. pre = p1 @ p2 \<and> p2 \<noteq> [] \<longrightarrow> \<not> match_here re (p2 @ u)"
    using Cons.prems by (metis append_Cons)
  ultimately show ?case
    using Cons.IH by simp
qed

lemma leftmost_sound:
  "leftmost re s = Some pre \<Longrightarrow> \<exists>u. s = pre @ u \<and> match_here re u"
proof (induction s arbitrary: pre)
  case Nil
  then show ?case by (auto split: if_splits)
next
  case (Cons c cs)
  show ?case
  proof (cases "match_here re (c # cs)")
    case True
    with Cons.prems show ?thesis by auto
  next
    case False
    with Cons.prems obtain q where "leftmost re cs = Some q" "pre = c # q"
      by auto
    with Cons.IH show ?thesis by auto
  qed
qed

lemma leftmost_complete:
  "match_here re u \<Longrightarrow> leftmost re (pre @ u) \<noteq> None"
proof (induction pre)
  case Nil
  then show ?case by (cases u) simp_all
next
  case (Cons c pre)
  then show ?case by auto
qed

lemma MatchString_iff:
  "MatchString re s = (\<exists>pre u. s = pre @ u \<and> match_here re u)"
  unfolding MatchString_def
  using leftmost_sound [of re s] leftmost_complete [of re] by (metis not_None_eq)


lemma MatchString_suffix: "MatchString (map Lit suf) s = HasSuffix s suf"
  by (auto simp: MatchString_iff match_here_Lits_only HasSuffix_def suffix_def)


text \<open>
  The prefix pattern on a path whose final segment is \<open>test_<word>.rb\<close>: the directory part
  \<open>dir\<close> is empty or ends with the separator, so no match starts inside it, and the whole
  final segment is the match.
\<close>

lemma leftmost_test_prefix:
  assumes "set w \<subseteq> set word_class" and "dir = [] \<or> last dir = CHR ''/''"
  shows "leftmost re_test_prefix (dir @ ''test_'' @ w @ ''.rb'') = Some dir"
proof (rule leftmost_at)
  show "match_here re_test_prefix (''test_'' @ w @ ''.rb'')"
    using assms(1) by (auto simp: match_here_test_prefix)
  show "\<forall>p1 p2. dir = p1 @ p2 \<and> p2 \<noteq> [] \<longrightarrow>
          \<not> match_here re_test_prefix (p2 @ ''test_'' @ w @ ''.rb'')"
  proof (intro allI impI)
    fix p1 p2
    assume a: "dir = p1 @ p2 \<and> p2 \<noteq> []"
    with assms(2) have "last p2 = CHR ''/''"
      by auto
    with a have "CHR ''/'' \<in> set p2"
      by (metis last_in_set)
    then show "\<not> match_here re_test_prefix (p2 @ ''test_'' @ w @ ''.rb'')"
      using match_here_test_prefix_no_slash [of "p2 @ ''test_'' @ w @ ''.rb''"] by auto
  qed
qed

lemma ReplaceAllString_test_prefix:
  "set w \<subseteq> set word_class \<Longrightarrow> dir = [] \<or> last dir = CHR ''/'' \<Longrightarrow>
   ReplaceAllString re_test_prefix (dir @ ''test_'' @ w @ ''.rb'') repl = dir @ repl"
  by (simp only: ReplaceAllString_def leftmost_test_prefix option.case)

text \<open>
  An occurrence in \<open>d @ r\<close> that is not inside \<open>d\<close> lies inside \<open>r\<close> or runs over the
  border between the two.
\<close>

lemma Contains_append_cases:
  assumes "Contains (d @ r) old" and "\<not> Contains d old"
  shows "Contains r old \<or> (\<exists>u v. old = u @ v \<and> u \<noteq> [] \<and> v \<noteq> [] \<and> prefix v r)"
  using assms
proof (induction d)
  case Nil
  then show ?case by simp
next
  case (Cons c d)
  from Cons.prems(2) have np: "\<not> prefix old (c # d)" and nd: "\<not> Contains d old"
    by simp_all
  from Cons.prems(1) consider "prefix old ((c # d) @ r)" | "Contains (d @ r) old"
    by auto
  then show ?case
  proof cases
    case 1
    with np obtain us where us: "old = (c # d) @ us" "prefix us r"
      using prefix_append [of old "c # d" r] by auto
    with np have "us \<noteq> []" by auto
    with us show ?thesis by blast
  next
    case 2
    with nd Cons.IH show ?thesis by blast
  qed
qed

text \<open>
  The test directory \<open>test/lib\<close> cannot occur across the last separator of a path whose
  final segment begins with \<open>test_\<close>, nor inside that segment.
\<close>

lemma test_lib_not_in_final_segment:
  assumes "CHR ''/'' \<notin> set t" and "\<not> Contains d ''test/lib''"
  shows "\<not> Contains (d @ ''/test_'' @ t) ''test/lib''"
proof
  assume "Contains (d @ ''/test_'' @ t) ''test/lib''"
  then consider "Contains (''/test_'' @ t) ''test/lib''"
    | u v where "''test/lib'' = u @ v" "u \<noteq> []" "v \<noteq> []" "prefix v (''/test_'' @ t)"
    using Contains_append_cases [OF _ assms(2)] by blast
  then show False
  proof cases
    case 1
    then have "Contains t ''test/lib''" by simp
    then show False
      using assms(1) Contains_has_chars [of t "''test/lib''"] by auto
  next
    case 2
    from 2(3,4) obtain v' where "v = CHR ''/'' # v'"
      by (cases v) auto
    with 2(1) have "v = ''/lib''"
      by (auto simp: Cons_eq_append_conv)
    with 2(4) show False by simp
  qed
qed

lemma Replace1_test_lib:
  assumes "CHR ''/'' \<notin> set t"
  shows "Replace1 (d @ ''/test_'' @ t) ''test/lib'' new
         = Replace1 d ''test/lib'' new @ ''/test_'' @ t"
proof (cases "Contains d ''test/lib''")
  case True
  then show ?thesis by (rule Replace1_in_front)
next
  case False
  have a: "Replace1 d ''test/lib'' new = d"
    using False by (rule Replace1_absent)
  have "\<not> Contains (d @ ''/test_'' @ t) ''test/lib''"
    using assms False by (rule test_lib_not_in_final_segment)
  then have b: "Replace1 (d @ ''/test_'' @ t) ''test/lib'' new = d @ ''/test_'' @ t"
    by (rule Replace1_absent)
  show ?thesis
    unfolding a b ..
qed

section \<open>The prefix pattern in the test-to-source direction\<close>

text \<open>A project without RSpec with a test file at its root, named with the prefix.\<close>

definition root_level_test :: filesystem where
  "root_level_test =
     [(''/p'', Dir), (''/p/test_user.rb'', File), (''/p/app_user.rb'', File)]"

text \<open>
  C9, as the claim has it, fails. The directory substitution comes first and replaces the
  first \<open>test\<close> of the path; for \<open>test_user.rb\<close> at the root that is the start of the final
  segment itself. The candidate of the prefix pattern for the pair (\<open>app\<close>, \<open>test\<close>) is
  \<open>app_user.rb\<close>, whose final segment is not \<open>.rb\<close>; and with \<open>/p/app_user.rb\<close> on disk the
  file resolves to it, while no file named \<open>.rb\<close> exists.
\<close>

theorem prefix_pattern_candidate_counterexample:
  "\<not> IsSpec root_level_test project_p \<and>
   snd (Split ''test_user.rb'') = ''test_'' @ ''user'' @ ''.rb'' \<and>
   src_candidate (NewSourceFile ''test_user.rb'' project_p) ''app'' ''test'' re_test_prefix
     = ''app_user.rb'' \<and>
   IsTestFile root_level_test (NewSourceFile ''test_user.rb'' project_p) \<and>
   filter (\<lambda>path. snd (Split path) = ''.rb'') (map fst root_level_test) = [] \<and>
   AlternateFile root_level_test (NewSourceFile ''test_user.rb'' project_p) = ''/p/app_user.rb''"
  by code_simp

text \<open>
  C9, amended. Under the prefix/suffix convention, for every path \<open>d/test_<word>.rb\<close> whose
  directory part \<open>d\<close> contains the test directory name \<open>test\<close> (as it does for a file
  under \<open>test/\<close>), every source directory and each of the two test directories: the
  candidate made with the prefix pattern has the final segment \<open>.rb\<close>, the whole of
  \<open>test_<word>.rb\<close> being replaced by the bare extension. So that candidate is never
  \<open><word>.rb\<close> in a source directory.
\<close>

theorem prefix_pattern_candidate:
  assumes "\<not> IsSpec fs (Project s)"
    and "Filename s = d @ ''/test_'' @ w @ ''.rb''"
    and "set w \<subseteq> set word_class"
    and "Contains d ''test''"
    and "testPath \<in> set (TestPaths fs (Project s))"
  shows "TestRegexes fs (Project s) = [re_test, re_test_prefix] \<and>
         (\<exists>d'. src_candidate s srcPath testPath re_test_prefix = d' @ ''/.rb'') \<and>
         snd (Split (src_candidate s srcPath testPath re_test_prefix)) = ''.rb''"
proof -
  have noslash: "CHR ''/'' \<notin> set (w @ ''.rb'')"
    using assms(3) slash_not_word by auto
  have j: "Join [''test'', ''lib''] = ''test/lib''"
    by code_simp
  from assms(1,5) have tp: "testPath = ''test'' \<or> testPath = ''test/lib''"
    by (auto simp: TestPaths_def TestAnchor_def j)
  have "\<exists>d'. Replace1 (Filename s) testPath srcPath = d' @ ''/test_'' @ w @ ''.rb''"
  proof -
    from tp consider "testPath = ''test''" | "testPath = ''test/lib''"
      by blast
    then show ?thesis
    proof cases
      case 1
      have "Replace1 (d @ ''/test_'' @ w @ ''.rb'') ''test'' srcPath
            = Replace1 d ''test'' srcPath @ ''/test_'' @ w @ ''.rb''"
        using assms(4) by (rule Replace1_in_front)
      with 1 assms(2) show ?thesis by metis
    next
      case 2
      have "Replace1 (d @ ''/test_'' @ (w @ ''.rb'')) ''test/lib'' srcPath
            = Replace1 d ''test/lib'' srcPath @ ''/test_'' @ (w @ ''.rb'')"
        using noslash by (rule Replace1_test_lib)
      with 2 assms(2) show ?thesis by (metis append_assoc)
    qed
  qed
  then obtain d' where d': "Replace1 (Filename s) testPath srcPath = d' @ ''/test_'' @ w @ ''.rb''"
    by blast
  have "ReplaceAllString re_test_prefix ((d' @ ''/'') @ ''test_'' @ w @ ''.rb'') ''.rb''
        = (d' @ ''/'') @ ''.rb''"
    using assms(3) by (intro ReplaceAllString_test_prefix) simp_all
  then have c: "src_candidate s srcPath testPath re_test_prefix = d' @ ''/.rb''"
    by (simp add: src_candidate_def d')
  have "snd (Split (d' @ ''/.rb'')) = ''.rb''"
    by (simp add: Split_def)
  with c assms(1) show ?thesis
    by (simp add: TestRegexes_def)
qed

text \<open>
  For \<open>test/test_user.rb\<close> in the application without RSpec the candidate of the pair
  (\<open>app\<close>, \<open>test\<close>) is \<open>app/.rb\<close>.
\<close>

theorem prefix_pattern_candidate_witness:
  "\<not> IsSpec rails_minitest project_p \<and>
   set ''user'' \<subseteq> set word_class \<and>
   Contains ''test'' ''test'' \<and>
   ''test'' \<in> set (TestPaths rails_minitest project_p) \<and>
   src_candidate (NewSourceFile ''test/test_user.rb'' project_p) ''app'' ''test'' re_test_prefix
     = ''app/.rb'' \<and>
   snd (Split (src_candidate (NewSourceFile ''test/test_user.rb'' project_p) ''app'' ''test''
     re_test_prefix)) = ''.rb''"
proof -
  let ?s = "NewSourceFile ''test/test_user.rb'' project_p"
  have h1: "\<not> IsSpec rails_minitest (Project ?s)" by code_simp
  have h2: "Filename ?s = ''test'' @ ''/test_'' @ ''user'' @ ''.rb''" by code_simp
  have h3: "set ''user'' \<subseteq> set word_class" by code_simp
  have h4: "Contains ''test'' ''test''" by code_simp
  have h5: "''test'' \<in> set (TestPaths rails_minitest (Project ?s))" by code_simp
  have p: "Project ?s = project_p" by (simp add: NewSourceFile_def)
  have c: "src_candidate ?s ''app'' ''test'' re_test_prefix = ''app/.rb''" by code_simp
  have "snd (Split (src_candidate ?s ''app'' ''test'' re_test_prefix)) = ''.rb''"
    using prefix_pattern_candidate [OF h1 h2 h3 h4 h5, of "''app''"] by blast
  with h1 h3 h4 h5 c show ?thesis
    unfolding p by blast
qed

section \<open>Toggling twice\<close>





text \<open>
  An application with RSpec in which \<open>lib/user.rb\<close> has its spec under \<open>spec/lib\<close>; in
  the second project there is a file \<open>app/user.rb\<close> as well.
\<close>

definition lib_rspec :: filesystem where
  "lib_rspec =
     [(''/p'', Dir), (''/p/.rspec'', File),
      (''/p/lib'', Dir), (''/p/lib/user.rb'', File),
      (''/p/spec'', Dir), (''/p/spec/lib'', Dir), (''/p/spec/lib/user_spec.rb'', File)]"





section \<open>Determinism\<close>


















section \<open>What IsTestFile accepts\<close>

text \<open>
  The classification in closed form: under the descriptive-spec convention the paths that
  end with \<open>_spec.rb\<close>; under the other convention the paths that end with \<open>_test.rb\<close>
  and the paths that end with \<open>test_<word>.rb\<close>, wherever in the final segment that
  ending begins.
\<close>

lemma IsTestFile_iff:
  "IsTestFile fs s =
   (if IsSpec fs (Project s) then HasSuffix (Filename s) ''_spec.rb''
    else HasSuffix (Filename s) ''_test.rb'' \<or>
      (\<exists>pre w. Filename s = pre @ ''test_'' @ w @ ''.rb'' \<and> set w \<subseteq> set word_class))"
proof -
  have a: "MatchString re_spec f = HasSuffix f ''_spec.rb''" for f
    unfolding re_spec_def by (rule MatchString_suffix)
  have b: "MatchString re_test f = HasSuffix f ''_test.rb''" for f
    unfolding re_test_def by (rule MatchString_suffix)
  have c: "MatchString re_test_prefix f =
      (\<exists>pre w. f = pre @ ''test_'' @ w @ ''.rb'' \<and> set w \<subseteq> set word_class)" for f
    unfolding MatchString_iff match_here_test_prefix by blast
  show ?thesis
    by (simp only: IsTestFile_def TestRegexes_def any_regex.simps a b c split: if_split)
       auto
qed

section \<open>The repository's tests\<close>

text \<open>
  The tables of \<open>main_test.go\<close>, with the temporary directory of each test as \<open>/p\<close>. They
  check the model against what the repository expects of the code.
\<close>

definition only_gemspec :: filesystem where
  "only_gemspec = [(''/p'', Dir), (''/p/test.gemspec'', File)]"

definition only_spec_helper :: filesystem where
  "only_spec_helper = [(''/p'', Dir), (''/p/spec'', Dir), (''/p/spec/spec_helper.rb'', File)]"

definition only_rspec_file :: filesystem where
  "only_rspec_file = [(''/p'', Dir), (''/p/.rspec'', File)]"

definition empty_project :: filesystem where
  "empty_project = [(''/p'', Dir)]"

definition minitest_fixture :: filesystem where
  "minitest_fixture =
     [(''/p'', Dir), (''/p/lib'', Dir), (''/p/lib/user.rb'', File),
      (''/p/test'', Dir), (''/p/test/lib'', Dir), (''/p/test/lib/user_test.rb'', File)]"

definition controller_fixture :: filesystem where
  "controller_fixture =
     [(''/p'', Dir), (''/p/.rspec'', File),
      (''/p/app'', Dir), (''/p/app/controllers'', Dir), (''/p/app/controllers/api'', Dir),
      (''/p/app/controllers/api/v1'', Dir),
      (''/p/app/controllers/api/v1/foos_controller.rb'', File),
      (''/p/spec'', Dir), (''/p/spec/requests'', Dir), (''/p/spec/requests/api'', Dir),
      (''/p/spec/requests/api/v1'', Dir),
      (''/p/spec/requests/api/v1/foos_controller_spec.rb'', File)]"

definition source_only_fixture :: filesystem where
  "source_only_fixture = [(''/p'', Dir), (''/p/lib'', Dir), (''/p/lib/user.rb'', File)]"

lemma TestProject_IsGem:
  "IsGem only_gemspec project_p" "\<not> IsGem empty_project project_p"
  by code_simp+

lemma TestProject_IsSpec:
  "IsSpec only_spec_helper project_p" "IsSpec only_rspec_file project_p"
  "\<not> IsSpec empty_project project_p"
  by code_simp+

lemma TestProject_SrcPaths:
  "SrcPaths only_gemspec project_p = [''lib'', '''']"
  "SrcPaths empty_project project_p = [''app'', ''lib'']"
  by code_simp+

lemma TestProject_TestAnchor:
  "TestAnchor only_spec_helper project_p = ''spec''"
  "TestAnchor empty_project project_p = ''test''"
  by code_simp+

lemma TestProject_Testify:
  "Testify only_spec_helper project_p ''user.rb'' = ''user_spec.rb''"
  "Testify empty_project project_p ''user.rb'' = ''user_test.rb''"
  by code_simp+

lemma TestSourceFile_IsTestFile:
  "IsTestFile only_spec_helper (NewSourceFile ''user_spec.rb'' project_p)"
  "IsTestFile empty_project (NewSourceFile ''user_test.rb'' project_p)"
  "IsTestFile empty_project (NewSourceFile ''test_user.rb'' project_p)"
  "\<not> IsTestFile only_spec_helper (NewSourceFile ''user.rb'' project_p)"
  "\<not> IsTestFile empty_project (NewSourceFile ''user.rb'' project_p)"
  by code_simp+

lemma TestSourceFile_IsController:
  "IsController (NewSourceFile ''app/controllers/api/v1/foos_controller.rb'' project_p)"
  "\<not> IsController (NewSourceFile ''app/controllers/application.rb'' project_p)"
  "\<not> IsController (NewSourceFile ''lib/foos_controller.rb'' project_p)"
  "\<not> IsController (NewSourceFile ''app/models/user.rb'' project_p)"
  by code_simp+

lemma TestSourceFile_IsRequestSpec:
  "IsRequestSpec (NewSourceFile ''spec/requests/api/v1/foos_controller_spec.rb'' project_p)"
  "\<not> IsRequestSpec (NewSourceFile ''spec/requests/api/v1/foos_spec.rb'' project_p)"
  "\<not> IsRequestSpec (NewSourceFile ''spec/controllers/api/v1/foos_controller_spec.rb'' project_p)"
  "\<not> IsRequestSpec (NewSourceFile ''spec/models/user_spec.rb'' project_p)"
  by code_simp+

lemma TestSourceFile_AlternateFile:
  "AlternateFile lib_rspec (NewSourceFile ''lib/user.rb'' project_p)
     = ''/p/spec/lib/user_spec.rb''"
  "AlternateFile lib_rspec (NewSourceFile ''spec/lib/user_spec.rb'' project_p)
     = ''/p/lib/user.rb''"
  "AlternateFile minitest_fixture (NewSourceFile ''lib/user.rb'' project_p)
     = ''/p/test/lib/user_test.rb''"
  "AlternateFile minitest_fixture (NewSourceFile ''test/lib/user_test.rb'' project_p)
     = ''/p/lib/user.rb''"
  "AlternateFile controller_fixture
     (NewSourceFile ''app/controllers/api/v1/foos_controller.rb'' project_p)
     = ''/p/spec/requests/api/v1/foos_controller_spec.rb''"
  "AlternateFile controller_fixture
     (NewSourceFile ''spec/requests/api/v1/foos_controller_spec.rb'' project_p)
     = ''/p/app/controllers/api/v1/foos_controller.rb''"
  "AlternateFile source_only_fixture (NewSourceFile ''lib/user.rb'' project_p) = []"
  by code_simp+

end
